theory Spec2Isabelle
  imports Main
begin

section \<open>Values of the host language\<close>

text \<open>
  The collection code works on untyped JavaScript values. A value is one of the kinds
  below. Numbers are the integers (a double is exact on them below \<open>2^53\<close>) and the
  not-a-number value; strings are lists of characters compared by character code; a
  \<open>Date\<close> is its millisecond timestamp; an \<open>ObjectId\<close> is its 24-digit lower-case
  hexadecimal string; an object is the list of its own properties in enumeration
  order. \<open>Date\<close> and \<open>ObjectId\<close> instances carry no own string-keyed property, and
  property names never name an inherited member (\<open>toString\<close>, \<open>constructor\<close>, ...).
\<close>

datatype jsval =
    Undefined
  | Null
  | Bool bool
  | Num int
  | NaN
  | Str string
  | DateV int
  | Oid string
  | Arr "jsval list"
  | Obj "(string \<times> jsval) list"

datatype error =
    Error string
  | TypeError
  | BSONError
  | RangeError
  | Unmodelled

text \<open>
  \<open>Error msg\<close> is \<open>throw new Error(msg)\<close>; \<open>TypeError\<close>, \<open>BSONError\<close> and
  \<open>RangeError\<close> are raised by the runtime and by the \<open>bson\<close> library. \<open>Unmodelled\<close>
  marks the few places where the code leaves the values above (a hole in an array, a
  named property stored on an array or on a class instance).
\<close>

fun truthy :: "jsval \<Rightarrow> bool" where
  "truthy Undefined = False"
| "truthy Null = False"
| "truthy (Bool b) = b"
| "truthy (Num n) = (n \<noteq> 0)"
| "truthy NaN = False"
| "truthy (Str s) = (s \<noteq> [])"
| "truthy _ = True"

fun typeof :: "jsval \<Rightarrow> string" where
  "typeof Undefined = ''undefined''"
| "typeof (Bool _) = ''boolean''"
| "typeof (Num _) = ''number''"
| "typeof NaN = ''number''"
| "typeof (Str _) = ''string''"
| "typeof _ = ''object''"

fun isArray :: "jsval \<Rightarrow> bool" where
  "isArray (Arr _) = True"
| "isArray _ = False"

definition is_digit :: "char \<Rightarrow> bool" where
  "is_digit c = (48 \<le> (of_char c :: nat) \<and> (of_char c :: nat) \<le> 57)"

definition all_digits :: "string \<Rightarrow> bool" where
  \<comment> \<open>the regular expression \<open>/^\\d+$/\<close>\<close>
  "all_digits s = (s \<noteq> [] \<and> list_all is_digit s)"

definition parseInt10 :: "string \<Rightarrow> nat" where
  \<comment> \<open>\<open>parseInt(s, 10)\<close> on a string of digits\<close>
  "parseInt10 s = foldl (\<lambda>n c. 10 * n + ((of_char c :: nat) - 48)) 0 s"

definition is_index :: "string \<Rightarrow> bool" where
  \<comment> \<open>a canonical array index: digits without a leading zero\<close>
  "is_index s = (all_digits s \<and> (s = ''0'' \<or> hd s \<noteq> CHR ''0''))"

fun split_at :: "char \<Rightarrow> string \<Rightarrow> string \<Rightarrow> string list" where
  "split_at d acc [] = [rev acc]"
| "split_at d acc (c # cs) =
     (if c = d then rev acc # split_at d [] cs else split_at d (c # acc) cs)"

definition split_dot :: "string \<Rightarrow> string list" where
  \<comment> \<open>\<open>path.split(".")\<close>\<close>
  "split_dot path = split_at (CHR ''.'') [] path"

fun obj_get :: "(string \<times> jsval) list \<Rightarrow> string \<Rightarrow> jsval" where
  "obj_get [] k = Undefined"
| "obj_get ((k', v) # kvs) k = (if k' = k then v else obj_get kvs k)"

fun obj_has :: "(string \<times> jsval) list \<Rightarrow> string \<Rightarrow> bool" where
  "obj_has [] k = False"
| "obj_has ((k', v) # kvs) k = (k' = k \<or> obj_has kvs k)"

fun obj_set :: "(string \<times> jsval) list \<Rightarrow> string \<Rightarrow> jsval \<Rightarrow> (string \<times> jsval) list" where
  "obj_set [] k v = [(k, v)]"
| "obj_set ((k', v') # kvs) k v =
     (if k' = k then (k, v) # kvs else (k', v') # obj_set kvs k v)"

fun obj_delete :: "(string \<times> jsval) list \<Rightarrow> string \<Rightarrow> (string \<times> jsval) list" where
  "obj_delete [] k = []"
| "obj_delete ((k', v') # kvs) k =
     (if k' = k then obj_delete kvs k else (k', v') # obj_delete kvs k)"

fun js_prop :: "jsval \<Rightarrow> string \<Rightarrow> jsval" where
  \<comment> \<open>\<open>v[part]\<close> on a value that is neither \<open>null\<close> nor \<open>undefined\<close>\<close>
  "js_prop (Obj kvs) part = obj_get kvs part"
| "js_prop (Arr xs) part =
     (if is_index part \<and> parseInt10 part < length xs then xs ! parseInt10 part
      else if part = ''length'' then Num (int (length xs))
      else Undefined)"
| "js_prop (Str s) part =
     (if is_index part \<and> parseInt10 part < length s then Str [s ! parseInt10 part]
      else if part = ''length'' then Num (int (length s))
      else Undefined)"
| "js_prop _ part = Undefined"

fun js_in :: "string \<Rightarrow> jsval \<Rightarrow> error + bool" where
  \<comment> \<open>\<open>part in v\<close>: a \<open>TypeError\<close> unless \<open>v\<close> is an object\<close>
  "js_in part (Obj kvs) = Inr (obj_has kvs part)"
| "js_in part (Arr xs) =
     Inr ((is_index part \<and> parseInt10 part < length xs) \<or> part = ''length'')"
| "js_in part (DateV _) = Inr False"
| "js_in part (Oid _) = Inr False"
| "js_in part _ = Inl TypeError"

fun js_put :: "jsval \<Rightarrow> string \<Rightarrow> jsval \<Rightarrow> error + jsval" where
  \<comment> \<open>\<open>cur[part] = v\<close> in a module (strict mode), returning the changed \<open>cur\<close>\<close>
  "js_put (Obj kvs) part v = Inr (Obj (obj_set kvs part v))"
| "js_put (Arr xs) part v =
     (if is_index part \<and> parseInt10 part < length xs then Inr (Arr (xs[parseInt10 part := v]))
      else if is_index part \<and> parseInt10 part = length xs then Inr (Arr (xs @ [v]))
      else Inl Unmodelled)"
| "js_put (DateV _) part v = Inl Unmodelled"
| "js_put (Oid _) part v = Inl Unmodelled"
| "js_put _ part v = Inl TypeError"

fun js_delete :: "jsval \<Rightarrow> string \<Rightarrow> error + jsval" where
  \<comment> \<open>\<open>delete cur[part]\<close>, returning the changed \<open>cur\<close>\<close>
  "js_delete (Obj kvs) part = Inr (Obj (obj_delete kvs part))"
| "js_delete (Arr xs) part =
     (if is_index part \<and> parseInt10 part < length xs then Inl Unmodelled
      else if part = ''length'' then Inl TypeError
      else Inr (Arr xs))"
| "js_delete (DateV t) part = Inr (DateV t)"
| "js_delete (Oid x) part = Inr (Oid x)"
| "js_delete (Str s) part =
     (if (is_index part \<and> parseInt10 part < length s) \<or> part = ''length''
      then Inl TypeError else Inr (Str s))"
| "js_delete Undefined part = Inl TypeError"
| "js_delete Null part = Inl TypeError"
| "js_delete v part = Inr v"

section \<open>Nested paths (\<open>utils\<close>)\<close>

definition is_object_item :: "jsval \<Rightarrow> bool" where
  \<comment> \<open>\<open>item && typeof item === "object"\<close>\<close>
  "is_object_item item = (truthy item \<and> typeof item = ''object'')"

definition getNestedStep :: "jsval \<Rightarrow> string \<Rightarrow> jsval" where
  \<comment> \<open>the reducer of \<open>getNestedValue\<close>\<close>
  "getNestedStep current part =
     (case current of
        Undefined \<Rightarrow> Undefined
      | Null \<Rightarrow> Undefined
      | Arr xs \<Rightarrow>
          if part = ''$'' \<or> part = [] then current
          else if all_digits part then
            (if parseInt10 part < length xs then xs ! parseInt10 part else Undefined)
          else if list_ex is_object_item xs then
            (let values = filter (\<lambda>v. v \<noteq> Undefined)
                            (map (\<lambda>item. js_prop item part) (filter is_object_item xs))
             in if values \<noteq> [] then Arr values else Undefined)
          else Undefined
      | _ \<Rightarrow> if truthy current \<and> typeof current = ''object''
             then js_prop current part else Undefined)"

definition getNestedValue :: "jsval \<Rightarrow> string \<Rightarrow> jsval" where
  "getNestedValue obj path =
     (if \<not> truthy obj then Undefined else foldl getNestedStep obj (split_dot path))"

fun setNestedParts :: "jsval \<Rightarrow> string list \<Rightarrow> jsval \<Rightarrow> error + jsval" where
  "setNestedParts current [] v = Inr current"
| "setNestedParts current [lastPart] v = js_put current lastPart v"
| "setNestedParts current (part # rest) v =
     (case js_in part current of
        Inl e \<Rightarrow> Inl e
      | Inr present \<Rightarrow>
          (case setNestedParts (if present then js_prop current part else Obj []) rest v of
             Inl e \<Rightarrow> Inl e
           | Inr child \<Rightarrow> js_put current part child))"

definition setNestedValue :: "jsval \<Rightarrow> string \<Rightarrow> jsval \<Rightarrow> error + jsval" where
  \<comment> \<open>the object is changed in place by the code; the changed object is returned here\<close>
  "setNestedValue obj path v = setNestedParts obj (split_dot path) v"

fun deleteNestedParts :: "jsval \<Rightarrow> string list \<Rightarrow> error + jsval" where
  "deleteNestedParts current [] = Inr current"
| "deleteNestedParts current [lastPart] = js_delete current lastPart"
| "deleteNestedParts current (part # rest) =
     (case js_in part current of
        Inl e \<Rightarrow> Inl e
      | Inr present \<Rightarrow>
          if \<not> present \<or> js_prop current part = Null then Inr current
          else (case deleteNestedParts (js_prop current part) rest of
                  Inl e \<Rightarrow> Inl e
                | Inr child \<Rightarrow> js_put current part child))"

definition deleteNestedField :: "jsval \<Rightarrow> string \<Rightarrow> error + jsval" where
  "deleteNestedField obj path = deleteNestedParts obj (split_dot path)"

section \<open>Conversions and comparison of the host language\<close>

definition digit_char :: "nat \<Rightarrow> char" where
  "digit_char d = char_of (48 + d)"

function show_nat :: "nat \<Rightarrow> string" where
  "show_nat n = (if n < 10 then [digit_char n] else show_nat (n div 10) @ [digit_char (n mod 10)])"
  by pat_completeness auto
termination
  by (relation "measure id") auto

declare show_nat.simps [simp del]

definition show_int :: "int \<Rightarrow> string" where
  \<comment> \<open>\<open>String(n)\<close> for an integer below \<open>10^21\<close> in magnitude\<close>
  "show_int n = (if n < 0 then CHR ''-'' # show_nat (nat (- n)) else show_nat (nat n))"

fun str_less :: "string \<Rightarrow> string \<Rightarrow> bool" where
  \<comment> \<open>\<open>a < b\<close> on two strings: by character code, a proper prefix first\<close>
  "str_less [] [] = False"
| "str_less [] (y # ys) = True"
| "str_less (x # xs) [] = False"
| "str_less (x # xs) (y # ys) =
     ((of_char x :: nat) < of_char y \<or> (x = y \<and> str_less xs ys))"

definition is_space :: "char \<Rightarrow> bool" where
  "is_space c = ((of_char c :: nat) \<in> {9, 10, 11, 12, 13, 32})"

definition trim :: "string \<Rightarrow> string" where
  "trim s = rev (dropWhile is_space (rev (dropWhile is_space s)))"

definition str_to_number :: "string \<Rightarrow> jsval" where
  \<comment> \<open>\<open>Number(s)\<close>. A string that spells a decimal integer gives that integer and a
      blank string gives 0. Strings that spell another numeric literal (a fraction, an
      exponent, a radix prefix, \<open>Infinity\<close>) are outside the integers of the model and
      read as not-a-number, as every other string does.\<close>
  "str_to_number s =
     (let t = trim s in
      if t = [] then Num 0
      else if all_digits t then Num (int (parseInt10 t))
      else if hd t = CHR ''-'' \<and> all_digits (tl t) then Num (- int (parseInt10 (tl t)))
      else if hd t = CHR ''+'' \<and> all_digits (tl t) then Num (int (parseInt10 (tl t)))
      else NaN)"

fun js_String :: "jsval \<Rightarrow> string option"
  and js_join :: "jsval list \<Rightarrow> string option"
  and js_join_item :: "jsval \<Rightarrow> string option"
where
  \<comment> \<open>\<open>String(v)\<close>; \<open>None\<close> where the text depends on the host's time zone\<close>
  "js_String Undefined = Some ''undefined''"
| "js_String Null = Some ''null''"
| "js_String (Bool b) = Some (if b then ''true'' else ''false'')"
| "js_String (Num n) = Some (show_int n)"
| "js_String NaN = Some ''NaN''"
| "js_String (Str s) = Some s"
| "js_String (DateV t) = None"
| "js_String (Oid x) = Some x"
| "js_String (Arr xs) = js_join xs"
| "js_String (Obj kvs) = Some ''[object Object]''"
| "js_join [] = Some []"
| "js_join [x] = js_join_item x"
| "js_join (x # y # ys) =
     (case js_join_item x of
        None \<Rightarrow> None
      | Some s \<Rightarrow> (case js_join (y # ys) of None \<Rightarrow> None | Some r \<Rightarrow> Some (s @ '','' @ r)))"
| "js_join_item Undefined = Some []"
| "js_join_item Null = Some []"
| "js_join_item (Arr xs) = js_join xs"
| "js_join_item v = js_String v"

definition to_primitive :: "jsval \<Rightarrow> jsval option" where
  \<comment> \<open>\<open>ToPrimitive\<close> with hint \<open>number\<close>: a \<open>Date\<close> gives its timestamp, every other
      object its string\<close>
  "to_primitive v =
     (case v of
        DateV t \<Rightarrow> Some (Num t)
      | Oid x \<Rightarrow> Some (Str x)
      | Arr xs \<Rightarrow> map_option Str (js_join xs)
      | Obj kvs \<Rightarrow> Some (Str ''[object Object]'')
      | _ \<Rightarrow> Some v)"

fun to_number :: "jsval \<Rightarrow> jsval" where
  \<comment> \<open>\<open>ToNumber\<close> of a primitive\<close>
  "to_number Undefined = NaN"
| "to_number Null = Num 0"
| "to_number (Bool b) = Num (if b then 1 else 0)"
| "to_number (Num n) = Num n"
| "to_number (Str s) = str_to_number s"
| "to_number _ = NaN"

definition prim_less :: "jsval \<Rightarrow> jsval \<Rightarrow> bool option" where
  \<comment> \<open>the abstract relational comparison of two primitives: \<open>None\<close> is its
      \<open>undefined\<close> result (an operand is not-a-number)\<close>
  "prim_less p q =
     (case (p, q) of
        (Str s, Str t) \<Rightarrow> Some (str_less s t)
      | _ \<Rightarrow> (case (to_number p, to_number q) of
                 (Num m, Num n) \<Rightarrow> Some (m < n)
               | _ \<Rightarrow> None))"

definition js_compare :: "jsval \<Rightarrow> jsval \<Rightarrow> bool option option" where
  \<comment> \<open>\<open>a < b\<close> before its result is made a boolean; the outer \<open>None\<close> is a
      conversion that depends on the host\<close>
  "js_compare a b =
     (case (to_primitive a, to_primitive b) of
        (Some p, Some q) \<Rightarrow> Some (prim_less p q)
      | _ \<Rightarrow> None)"

definition js_lt :: "jsval \<Rightarrow> jsval \<Rightarrow> bool" where
  "js_lt a b = (js_compare a b = Some (Some True))"

definition js_gt :: "jsval \<Rightarrow> jsval \<Rightarrow> bool" where
  "js_gt a b = (js_compare b a = Some (Some True))"

definition js_lte :: "jsval \<Rightarrow> jsval \<Rightarrow> bool" where
  \<comment> \<open>\<open>a <= b\<close> is \<open>!(b < a)\<close> unless the comparison is undefined\<close>
  "js_lte a b = (js_compare b a = Some (Some False))"

definition js_gte :: "jsval \<Rightarrow> jsval \<Rightarrow> bool" where
  "js_gte a b = (js_compare a b = Some (Some False))"

definition host_dependent :: "jsval \<Rightarrow> bool" where
  \<comment> \<open>comparing the value would print a \<open>Date\<close> in the host's local format\<close>
  "host_dependent v = (to_primitive v = None)"

definition strict_eq :: "jsval \<Rightarrow> jsval \<Rightarrow> bool" where
  \<comment> \<open>\<open>a === b\<close>. Two objects are identical only as the same reference; the places
      that compare objects this way hold two separately built values.\<close>
  "strict_eq a b =
     (case a of
        Undefined \<Rightarrow> b = Undefined
      | Null \<Rightarrow> b = Null
      | Bool x \<Rightarrow> b = Bool x
      | Num n \<Rightarrow> b = Num n
      | Str s \<Rightarrow> b = Str s
      | _ \<Rightarrow> False)"

fun own_keys :: "jsval \<Rightarrow> string list" where
  \<comment> \<open>\<open>Object.keys(v)\<close>\<close>
  "own_keys (Obj kvs) = map fst kvs"
| "own_keys (Arr xs) = map show_nat [0..<length xs]"
| "own_keys (Str s) = map show_nat [0..<length s]"
| "own_keys _ = []"

fun has_own :: "jsval \<Rightarrow> string \<Rightarrow> bool" where
  \<comment> \<open>\<open>Object.prototype.hasOwnProperty.call(v, key)\<close>\<close>
  "has_own (Obj kvs) key = obj_has kvs key"
| "has_own (Arr xs) key = ((is_index key \<and> parseInt10 key < length xs) \<or> key = ''length'')"
| "has_own (Str s) key = ((is_index key \<and> parseInt10 key < length s) \<or> key = ''length'')"
| "has_own _ key = False"

section \<open>Structural equality (\<open>isEqual\<close>)\<close>

definition nullish :: "jsval \<Rightarrow> bool" where
  \<comment> \<open>\<open>v == null\<close>\<close>
  "nullish v = (v = Null \<or> v = Undefined)"

fun isEqual :: "jsval \<Rightarrow> jsval \<Rightarrow> bool"
  and isEqual_every :: "jsval list \<Rightarrow> jsval list \<Rightarrow> bool"
  and isEqual_index :: "jsval list \<Rightarrow> nat \<Rightarrow> jsval \<Rightarrow> bool"
  and isEqual_keys :: "(string \<times> jsval) list \<Rightarrow> jsval \<Rightarrow> bool"
where
  "isEqual (Oid x) b =
     (case b of
        Oid y \<Rightarrow> x = y
      | _ \<Rightarrow> \<not> nullish b \<and> typeof b = ''object'' \<and> own_keys b = [])"
| "isEqual (DateV s) b =
     (case b of
        DateV t \<Rightarrow> s = t
      | _ \<Rightarrow> \<not> nullish b \<and> typeof b = ''object'' \<and> own_keys b = [])"
| "isEqual (Arr xs) b =
     (case b of
        Arr ys \<Rightarrow> length xs = length ys \<and> (xs = [] \<or> isEqual_every xs ys)
      | _ \<Rightarrow> \<not> nullish b \<and> typeof b = ''object'' \<and>
             length xs = length (own_keys b) \<and> isEqual_index xs 0 b)"
| "isEqual (Obj kvs) b =
     (\<not> nullish b \<and> typeof b = ''object'' \<and>
      length kvs = length (own_keys b) \<and> isEqual_keys kvs b)"
| "isEqual a b = strict_eq a b"
| "isEqual_every [] ys = True"
| "isEqual_every (x # xs) ys =
     (isEqual x (case ys of [] \<Rightarrow> Undefined | y # _ \<Rightarrow> y) \<and> isEqual_every xs (tl ys))"
| "isEqual_index [] i b = True"
| "isEqual_index (x # xs) i b =
     (has_own b (show_nat i) \<and> isEqual x (js_prop b (show_nat i)) \<and> isEqual_index xs (Suc i) b)"
| "isEqual_keys [] b = True"
| "isEqual_keys ((key, v) # kvs) b =
     (has_own b key \<and> isEqual v (js_prop b key) \<and> isEqual_keys kvs b)"

section \<open>The filter evaluator\<close>

definition isComparable :: "jsval \<Rightarrow> bool" where
  "isComparable v = (typeof v = ''number'' \<or> typeof v = ''string'' \<or> (case v of DateV _ \<Rightarrow> True | _ \<Rightarrow> False))"

definition blocks_array_spread :: "jsval \<Rightarrow> bool" where
  \<comment> \<open>\<open>condition && typeof condition === "object" && ("$all" in condition ||
      "$size" in condition || "$elemMatch" in condition || "$nin" in condition)\<close>\<close>
  "blocks_array_spread condition =
     (truthy condition \<and> typeof condition = ''object'' \<and>
      (has_own condition ''$all'' \<or> has_own condition ''$size'' \<or>
       has_own condition ''$elemMatch'' \<or> has_own condition ''$nin''))"

definition plain_object :: "jsval \<Rightarrow> bool" where
  \<comment> \<open>\<open>typeof value === "object" && value !== null && !Array.isArray(value)\<close>\<close>
  "plain_object v = (typeof v = ''object'' \<and> v \<noteq> Null \<and> \<not> isArray v)"

definition is_oid :: "jsval \<Rightarrow> bool" where
  "is_oid v = (case v of Oid _ \<Rightarrow> True | _ \<Rightarrow> False)"

definition is_date :: "jsval \<Rightarrow> bool" where
  "is_date v = (case v of DateV _ \<Rightarrow> True | _ \<Rightarrow> False)"

definition arr_items :: "jsval \<Rightarrow> jsval list" where
  "arr_items v = (case v of Arr xs \<Rightarrow> xs | _ \<Rightarrow> [])"

definition obj_entries :: "jsval \<Rightarrow> (string \<times> jsval) list" where
  "obj_entries v = (case v of Obj kvs \<Rightarrow> kvs | _ \<Rightarrow> [])"

lemma size_arr_items: "isArray v \<Longrightarrow> size_list size (arr_items v) < size v"
  by (cases v) (auto simp: arr_items_def)

lemma size_obj_entries:
  "size_list (size_prod (\<lambda>x. 0) size) (obj_entries c) \<le> size c"
  by (cases c) (auto simp: obj_entries_def)

function matchesCondition :: "jsval \<Rightarrow> jsval \<Rightarrow> bool"
  and matchesSome :: "jsval list \<Rightarrow> jsval \<Rightarrow> bool"
  and matchesEntries :: "jsval \<Rightarrow> (string \<times> jsval) list \<Rightarrow> bool"
  and matchesIndexed :: "jsval \<Rightarrow> jsval list \<Rightarrow> nat \<Rightarrow> bool"
  and matchesOp :: "jsval \<Rightarrow> string \<Rightarrow> jsval \<Rightarrow> bool"
  and elemMatchSome :: "jsval list \<Rightarrow> jsval \<Rightarrow> bool"
where
  "matchesCondition v condition =
     (if is_oid v \<and> is_oid condition then v = condition
      else if isArray v \<and> \<not> isArray condition \<and> \<not> blocks_array_spread condition
        then matchesSome (arr_items v) condition
      else if isArray v \<and> isArray condition
        then length (arr_items v) = length (arr_items condition) \<and>
             list_all (\<lambda>(item, c). isEqual item c) (zip (arr_items v) (arr_items condition))
      else if truthy condition \<and> typeof condition = ''object''
        then (if isArray condition then matchesIndexed v (arr_items condition) 0
              else matchesEntries v (obj_entries condition))
      else isEqual v condition)"
| "matchesSome [] condition = False"
| "matchesSome (item # items) condition =
     (matchesCondition item condition \<or> matchesSome items condition)"
| "matchesEntries v [] = True"
| "matchesEntries v ((op, val) # rest) = (matchesOp v op val \<and> matchesEntries v rest)"
| "matchesIndexed v [] i = True"
| "matchesIndexed v (val # rest) i =
     (matchesOp v (show_nat i) val \<and> matchesIndexed v rest (Suc i))"
| "matchesOp v op val =
     (if op = ''$eq'' then isEqual v val
      else if op = ''$gt'' then
        (if \<not> isComparable v \<or> \<not> isComparable val then False else js_gt v val)
      else if op = ''$gte'' then
        (if \<not> isComparable v \<or> \<not> isComparable val then False else js_gte v val)
      else if op = ''$lt'' then
        (if \<not> isComparable v \<or> \<not> isComparable val then False else js_lt v val)
      else if op = ''$lte'' then
        (if \<not> isComparable v \<or> \<not> isComparable val then False else js_lte v val)
      else if op = ''$ne'' then \<not> isEqual v val
      else if op = ''$in'' then
        (isArray val \<and> list_ex (\<lambda>x. isEqual v x) (arr_items val))
      else if op = ''$nin'' then
        (if isArray v then
           isArray val \<and>
           \<not> list_ex (\<lambda>item. list_ex (\<lambda>x. isEqual item x) (arr_items val)) (arr_items v)
         else isArray val \<and> \<not> list_ex (\<lambda>x. isEqual v x) (arr_items val))
      else if op = ''$exists'' then strict_eq val (Bool (v \<noteq> Undefined))
      else if op = ''$all'' then
        (if \<not> isArray v \<or> \<not> isArray val then False
         else list_all (\<lambda>x. list_ex (\<lambda>item. isEqual item x) (arr_items v)) (arr_items val))
      else if op = ''$size'' then
        (isArray v \<and> strict_eq (Num (int (length (arr_items v)))) val)
      else if op = ''$elemMatch'' then
        (if \<not> isArray v then False else elemMatchSome (arr_items v) val)
      else if op = ''$not'' then
        (if typeof val \<noteq> ''object'' then \<not> isEqual v val else \<not> matchesCondition v val)
      else if op = ''$type'' then
        (if val = Str ''null'' then v = Null
         else if val = Str ''array'' then isArray v
         else if val = Str ''date'' then is_date v
         else if val = Str ''objectId'' then is_oid v
         else strict_eq (Str (typeof v)) val)
      else if plain_object v then matchesCondition (getNestedValue v op) val
      else False)"
| "elemMatchSome [] val = False"
| "elemMatchSome (item # items) val =
     ((if typeof val \<noteq> ''object'' then isEqual item val else matchesCondition item val)
      \<or> elemMatchSome items val)"
  by pat_completeness auto

termination
  apply (relation "measures [
     (\<lambda>x. case x of
         Inl (Inl (v, c)) \<Rightarrow> size c
       | Inl (Inr (Inl (items, c))) \<Rightarrow> size c
       | Inl (Inr (Inr (v, es))) \<Rightarrow> size_list (size_prod (\<lambda>x. 0) size) es
       | Inr (Inl (v, cs, i)) \<Rightarrow> size_list size cs
       | Inr (Inr (Inl (v, op, val))) \<Rightarrow> size val
       | Inr (Inr (Inr (items, val))) \<Rightarrow> size val),
     (\<lambda>x. case x of
         Inl (Inl (v, c)) \<Rightarrow> 1
       | Inl (Inr (Inl (items, c))) \<Rightarrow> 1
       | Inl (Inr (Inr (v, es))) \<Rightarrow> 0
       | Inr (Inl (v, cs, i)) \<Rightarrow> 0
       | Inr (Inr (Inl (v, op, val))) \<Rightarrow> 3
       | Inr (Inr (Inr (items, val))) \<Rightarrow> 2),
     (\<lambda>x. case x of
         Inl (Inl (v, c)) \<Rightarrow> size v
       | Inl (Inr (Inl (items, c))) \<Rightarrow> size_list size items
       | Inl (Inr (Inr (v, es))) \<Rightarrow> 0
       | Inr (Inl (v, cs, i)) \<Rightarrow> 0
       | Inr (Inr (Inl (v, op, val))) \<Rightarrow> 0
       | Inr (Inr (Inr (items, val))) \<Rightarrow> size_list size items)]")
  apply (simp_all add: size_arr_items size_obj_entries less_Suc_eq_le)
  apply (rule le_imp_less_or_eq, rule size_obj_entries)
  done

definition str_chars :: "jsval \<Rightarrow> jsval list" where
  "str_chars v = (case v of Str s \<Rightarrow> map (\<lambda>c. Str [c]) s | _ \<Rightarrow> [])"

definition fieldMatches :: "jsval \<Rightarrow> string \<Rightarrow> jsval \<Rightarrow> bool" where
  "fieldMatches doc key condition =
     (let v = getNestedValue doc key in
      if condition = Null then v = Null else matchesCondition v condition)"

fun fieldsIndexed :: "jsval \<Rightarrow> jsval list \<Rightarrow> nat \<Rightarrow> bool" where
  "fieldsIndexed doc [] i = True"
| "fieldsIndexed doc (condition # rest) i =
     (fieldMatches doc (show_nat i) condition \<and> fieldsIndexed doc rest (Suc i))"

lemma size_arr_items_mem: "f \<in> set (arr_items c) \<Longrightarrow> size f < size c"
  by (cases c) (auto simp: arr_items_def less_Suc_eq_le intro: size_list_estimation')

function matchesFilter :: "jsval \<Rightarrow> jsval \<Rightarrow> bool"
  and matchesFilterEntries :: "jsval \<Rightarrow> (string \<times> jsval) list \<Rightarrow> bool"
where
  "matchesFilter doc flt =
     (if isArray flt then fieldsIndexed doc (arr_items flt) 0
      else if typeof flt = ''string'' then fieldsIndexed doc (str_chars flt) 0
      else matchesFilterEntries doc (obj_entries flt))"
| "matchesFilterEntries doc [] = True"
| "matchesFilterEntries doc ((key, condition) # rest) =
     (if key = ''$or'' \<and> isArray condition then
        (if arr_items condition = [] then True
         else if \<not> list_ex (\<lambda>subFilter. matchesFilter doc subFilter) (arr_items condition) then False
         else matchesFilterEntries doc rest)
      else if key = ''$and'' \<and> isArray condition then
        (if arr_items condition = [] then True
         else if \<not> list_all (\<lambda>subFilter. matchesFilter doc subFilter) (arr_items condition) then False
         else matchesFilterEntries doc rest)
      else if key = ''$nor'' \<and> isArray condition then
        (if arr_items condition = [] then True
         else if list_ex (\<lambda>subFilter. matchesFilter doc subFilter) (arr_items condition) then False
         else matchesFilterEntries doc rest)
      else if key = ''$not'' \<and> truthy condition \<and> typeof condition = ''object'' then
        (if matchesFilter doc condition then False else matchesFilterEntries doc rest)
      else if \<not> fieldMatches doc key condition then False
      else matchesFilterEntries doc rest)"
  by pat_completeness auto
termination
  apply (relation "measure (\<lambda>x. case x of
           Inl (d, f) \<Rightarrow> 2 * size f + 1
         | Inr (d, es) \<Rightarrow> 2 * size_list (size_prod (\<lambda>x. 0) size) es)")
     apply simp_all
     apply (simp add: le_imp_less_Suc size_obj_entries)
    apply (drule size_arr_items_mem, simp)+
  done

declare matchesCondition.simps [simp del] matchesOp.simps [simp del] matchesFilter.simps [simp del]

section \<open>The update engine\<close>

definition bind_err :: "error + 'a \<Rightarrow> ('a \<Rightarrow> error + 'b) \<Rightarrow> error + 'b" where
  "bind_err r f = (case r of Inl e \<Rightarrow> Inl e | Inr x \<Rightarrow> f x)"

fun forEach_err :: "('s \<Rightarrow> 'a \<Rightarrow> error + 's) \<Rightarrow> 'a list \<Rightarrow> 's \<Rightarrow> error + 's" where
  \<comment> \<open>a loop over \<open>xs\<close> that threads the state and stops at the first exception\<close>
  "forEach_err f [] st = Inr st"
| "forEach_err f (x # xs) st = bind_err (f st x) (forEach_err f xs)"

definition entries_of :: "jsval \<Rightarrow> (string \<times> jsval) list" where
  \<comment> \<open>\<open>Object.entries(v)\<close> of a value that is neither \<open>null\<close> nor \<open>undefined\<close>\<close>
  "entries_of v =
     (case v of
        Obj kvs \<Rightarrow> kvs
      | Arr xs \<Rightarrow> zip (map show_nat [0..<length xs]) xs
      | Str s \<Rightarrow> zip (map show_nat [0..<length s]) (map (\<lambda>c. Str [c]) s)
      | _ \<Rightarrow> [])"

definition put_back :: "jsval \<Rightarrow> string \<Rightarrow> jsval \<Rightarrow> jsval" where
  \<comment> \<open>the object \<open>current\<close> once the value it holds at \<open>part\<close> has been changed in place\<close>
  "put_back current part child =
     (case current of
        Obj kvs \<Rightarrow> if obj_has kvs part then Obj (obj_set kvs part child) else current
      | Arr xs \<Rightarrow>
          if is_index part \<and> parseInt10 part < length xs
          then Arr (xs[parseInt10 part := child]) else current
      | _ \<Rightarrow> current)"

fun unsetParts :: "jsval \<Rightarrow> string list \<Rightarrow> error + jsval" where
  \<comment> \<open>the loop of the \<open>$unset\<close> branch: on a falsy intermediate it leaves the loop
      (\<open>break\<close>) and the \<open>delete\<close> below the loop still runs, on the object reached\<close>
  "unsetParts current [] = Inr current"
| "unsetParts current [lastPart] =
     (if truthy current \<and> typeof current = ''object'' then js_delete current lastPart
      else Inr current)"
| "unsetParts current (part # rest) =
     (if \<not> truthy (js_prop current part) then
        (if truthy current \<and> typeof current = ''object'' then js_delete current (last rest)
         else Inr current)
      else bind_err (unsetParts (js_prop current part) rest)
             (\<lambda>child. Inr (put_back current part child)))"

definition prim_default :: "jsval \<Rightarrow> jsval option" where
  \<comment> \<open>\<open>ToPrimitive\<close> without a hint, as \<open>+\<close> applies it: a \<open>Date\<close> prints itself in the
      host's local format\<close>
  "prim_default v =
     (case v of
        DateV t \<Rightarrow> None
      | Oid x \<Rightarrow> Some (Str x)
      | Arr xs \<Rightarrow> map_option Str (js_join xs)
      | Obj kvs \<Rightarrow> Some (Str ''[object Object]'')
      | _ \<Rightarrow> Some v)"

definition js_add :: "jsval \<Rightarrow> jsval \<Rightarrow> error + jsval" where
  \<comment> \<open>\<open>a + b\<close>\<close>
  "js_add a b =
     (case (prim_default a, prim_default b) of
        (Some p, Some q) \<Rightarrow>
          if typeof p = ''string'' \<or> typeof q = ''string'' then
            (case (js_String p, js_String q) of
               (Some s, Some t) \<Rightarrow> Inr (Str (s @ t))
             | _ \<Rightarrow> Inl Unmodelled)
          else (case (to_number p, to_number q) of
                  (Num m, Num n) \<Rightarrow> Inr (Num (m + n))
                | _ \<Rightarrow> Inr NaN)
      | _ \<Rightarrow> Inl Unmodelled)"

definition js_mul :: "jsval \<Rightarrow> jsval \<Rightarrow> error + jsval" where
  \<comment> \<open>\<open>a * b\<close>\<close>
  "js_mul a b =
     (case (to_primitive a, to_primitive b) of
        (Some p, Some q) \<Rightarrow>
          (case (to_number p, to_number q) of
             (Num m, Num n) \<Rightarrow> Inr (Num (m * n))
           | _ \<Rightarrow> Inr NaN)
      | _ \<Rightarrow> Inl Unmodelled)"

text \<open>
  \<open>$push\<close> and \<open>$addToSet\<close> call \<open>push\<close> on the array that \<open>getNestedValue\<close> returned.
  That array is either a part of the document, and the document changes, or an array
  that \<open>getNestedValue\<close> built itself (the values collected over an array of objects),
  and the document does not. An address says which: the property names that lead from
  the document to the value, or the addresses of the elements of a collected array.
\<close>

datatype addr = Absent | Here "string list" | Collected "addr list"

fun resolve :: "jsval \<Rightarrow> addr \<Rightarrow> jsval" where
  "resolve root Absent = Undefined"
| "resolve root (Here steps) = foldl js_prop root steps"
| "resolve root (Collected as) = Arr (map (resolve root) as)"

fun addr_child :: "addr \<Rightarrow> string \<Rightarrow> addr" where
  "addr_child Absent k = Absent"
| "addr_child (Here steps) k = Here (steps @ [k])"
| "addr_child (Collected as) k =
     (if is_index k \<and> parseInt10 k < length as then as ! parseInt10 k else Absent)"

definition refStep :: "jsval \<Rightarrow> addr \<Rightarrow> string \<Rightarrow> addr" where
  \<comment> \<open>the reducer of \<open>getNestedValue\<close>, on addresses\<close>
  "refStep root a part =
     (let current = resolve root a in
      case current of
        Undefined \<Rightarrow> Absent
      | Null \<Rightarrow> Absent
      | Arr xs \<Rightarrow>
          if part = ''$'' \<or> part = [] then a
          else if all_digits part then
            (if parseInt10 part < length xs then addr_child a (show_nat (parseInt10 part))
             else Absent)
          else if list_ex is_object_item xs then
            (let as = map (\<lambda>i. addr_child (addr_child a (show_nat i)) part)
                        (filter (\<lambda>i. is_object_item (xs ! i) \<and> js_prop (xs ! i) part \<noteq> Undefined)
                           [0..<length xs])
             in if as \<noteq> [] then Collected as else Absent)
          else Absent
      | _ \<Rightarrow> if truthy current \<and> typeof current = ''object''
             then addr_child a part else Absent)"

definition getNestedRef :: "jsval \<Rightarrow> string \<Rightarrow> addr" where
  "getNestedRef obj path =
     (if \<not> truthy obj then Absent else foldl (refStep obj) (Here []) (split_dot path))"

fun update_at :: "jsval \<Rightarrow> string list \<Rightarrow> (jsval \<Rightarrow> jsval) \<Rightarrow> jsval" where
  "update_at v [] f = f v"
| "update_at v (k # ks) f = put_back v k (update_at (js_prop v k) ks f)"

definition push_in_place :: "jsval \<Rightarrow> string \<Rightarrow> jsval \<Rightarrow> jsval" where
  \<comment> \<open>\<open>getNestedValue(result, path).push(value)\<close>, seen from \<open>result\<close>\<close>
  "push_in_place result path v =
     (case getNestedRef result path of
        Here steps \<Rightarrow> update_at result steps (\<lambda>array. Arr (arr_items array @ [v]))
      | _ \<Rightarrow> result)"

definition set_op :: "jsval \<Rightarrow> string \<times> jsval \<Rightarrow> error + jsval" where
  "set_op result e = setNestedValue result (fst e) (snd e)"

definition unset_op :: "jsval \<Rightarrow> string \<times> jsval \<Rightarrow> error + jsval" where
  "unset_op result e = unsetParts result (split_dot (fst e))"

definition inc_op :: "jsval \<Rightarrow> string \<times> jsval \<Rightarrow> error + jsval" where
  "inc_op result e =
     (if snd e = Undefined then Inr result
      else let found = getNestedValue result (fst e);
               currentValue = (if truthy found then found else Num 0)
           in bind_err (js_add currentValue (snd e)) (setNestedValue result (fst e)))"

definition mul_op :: "jsval \<Rightarrow> string \<times> jsval \<Rightarrow> error + jsval" where
  "mul_op result e =
     (if snd e = Undefined then Inr result
      else let found = getNestedValue result (fst e);
               currentValue = (if truthy found then found else Num 0)
           in bind_err (js_mul currentValue (snd e)) (setNestedValue result (fst e)))"

definition push_op :: "jsval \<Rightarrow> string \<times> jsval \<Rightarrow> error + jsval" where
  \<comment> \<open>the value is appended as it is, whatever it is\<close>
  "push_op result e =
     (if \<not> isArray (getNestedValue result (fst e))
      then setNestedValue result (fst e) (Arr [snd e])
      else Inr (push_in_place result (fst e) (snd e)))"

definition pull_op :: "jsval \<Rightarrow> string \<times> jsval \<Rightarrow> error + jsval" where
  "pull_op result e =
     (let array = getNestedValue result (fst e) in
      if isArray array
      then setNestedValue result (fst e)
             (Arr (filter (\<lambda>item. \<not> isEqual item (snd e)) (arr_items array)))
      else Inr result)"

definition addToSet_op :: "jsval \<Rightarrow> string \<times> jsval \<Rightarrow> error + jsval" where
  "addToSet_op result e =
     (let array = getNestedValue result (fst e) in
      if \<not> isArray array then setNestedValue result (fst e) (Arr [snd e])
      else if \<not> list_ex (\<lambda>item. isEqual item (snd e)) (arr_items array)
      then Inr (push_in_place result (fst e) (snd e))
      else Inr result)"

definition min_op :: "jsval \<Rightarrow> string \<times> jsval \<Rightarrow> error + jsval" where
  "min_op result e =
     (if snd e = Undefined then Inr result
      else let currentValue = getNestedValue result (fst e) in
           if currentValue = Undefined then setNestedValue result (fst e) (snd e)
           else if host_dependent currentValue \<or> host_dependent (snd e) then Inl Unmodelled
           else if js_gt currentValue (snd e) then setNestedValue result (fst e) (snd e)
           else Inr result)"

definition max_op :: "jsval \<Rightarrow> string \<times> jsval \<Rightarrow> error + jsval" where
  "max_op result e =
     (if snd e = Undefined then Inr result
      else let currentValue = getNestedValue result (fst e) in
           if currentValue = Undefined then setNestedValue result (fst e) (snd e)
           else if host_dependent currentValue \<or> host_dependent (snd e) then Inl Unmodelled
           else if js_lt currentValue (snd e) then setNestedValue result (fst e) (snd e)
           else Inr result)"

definition apply_group ::
  "jsval \<Rightarrow> string \<Rightarrow> (jsval \<Rightarrow> string \<times> jsval \<Rightarrow> error + jsval) \<Rightarrow> jsval \<Rightarrow> error + jsval" where
  \<comment> \<open>\<open>if (update.$op) Object.entries(update.$op).forEach(...)\<close>\<close>
  "apply_group update name op result =
     (if truthy (js_prop update name)
      then forEach_err op (entries_of (js_prop update name)) result
      else Inr result)"

definition applyUpdateOperators :: "jsval \<Rightarrow> jsval \<Rightarrow> error + jsval" where
  \<comment> \<open>\<open>result\<close> starts as a copy of \<open>doc\<close> and every operator changes it in turn\<close>
  "applyUpdateOperators doc update =
     (if nullish update then Inl TypeError else
     bind_err (apply_group update ''$set'' set_op doc) (\<lambda>r1.
     bind_err (apply_group update ''$unset'' unset_op r1) (\<lambda>r2.
     bind_err (apply_group update ''$inc'' inc_op r2) (\<lambda>r3.
     bind_err (apply_group update ''$mul'' mul_op r3) (\<lambda>r4.
     bind_err (apply_group update ''$push'' push_op r4) (\<lambda>r5.
     bind_err (apply_group update ''$pull'' pull_op r5) (\<lambda>r6.
     bind_err (apply_group update ''$addToSet'' addToSet_op r6) (\<lambda>r7.
     bind_err (apply_group update ''$min'' min_op r7) (\<lambda>r8.
     apply_group update ''$max'' max_op r8)))))))))"

section \<open>The key-value store\<close>

text \<open>
  The store of the host maps keys (tuples of strings, numbers and booleans) to values,
  each with the versionstamp of the commit that wrote it. It is kept as a list in key
  order. A prefix scan returns, in key order, the entries whose key extends the prefix;
  an atomic batch commits only if every check finds the versionstamp it expects.
\<close>

datatype kpart = KStr string | KNum int | KNaN | KBool bool

type_synonym kvkey = "kpart list"

record kvstore =
  entries :: "(kvkey \<times> jsval \<times> nat) list"
  clock :: nat

datatype kvop = SetOp kvkey jsval | DeleteOp kvkey

definition part_rank :: "kpart \<Rightarrow> nat" where
  \<comment> \<open>strings sort before numbers, numbers before booleans\<close>
  "part_rank p = (case p of KStr _ \<Rightarrow> 0 | KNum _ \<Rightarrow> 1 | KNaN \<Rightarrow> 1 | KBool _ \<Rightarrow> 2)"

definition part_less :: "kpart \<Rightarrow> kpart \<Rightarrow> bool" where
  "part_less p q =
     (if part_rank p \<noteq> part_rank q then part_rank p < part_rank q
      else (case p of
              KStr a \<Rightarrow> (case q of KStr b \<Rightarrow> str_less a b | _ \<Rightarrow> False)
            | KNum a \<Rightarrow> (case q of KNum b \<Rightarrow> a < b | KNaN \<Rightarrow> True | _ \<Rightarrow> False)
            | KNaN \<Rightarrow> False
            | KBool a \<Rightarrow> (case q of KBool b \<Rightarrow> \<not> a \<and> b | _ \<Rightarrow> False)))"

fun key_less :: "kvkey \<Rightarrow> kvkey \<Rightarrow> bool" where
  "key_less [] [] = False"
| "key_less [] (q # qs) = True"
| "key_less (p # ps) [] = False"
| "key_less (p # ps) (q # qs) = (part_less p q \<or> (p = q \<and> key_less ps qs))"

fun insert_entry :: "kvkey \<Rightarrow> 'a \<Rightarrow> (kvkey \<times> 'a) list \<Rightarrow> (kvkey \<times> 'a) list" where
  "insert_entry k x [] = [(k, x)]"
| "insert_entry k x (e # es) =
     (if key_less k (fst e) then (k, x) # e # es else e # insert_entry k x es)"

definition remove_key :: "kvkey \<Rightarrow> (kvkey \<times> 'a) list \<Rightarrow> (kvkey \<times> 'a) list" where
  "remove_key k es = filter (\<lambda>e. fst e \<noteq> k) es"

definition apply_op :: "nat \<Rightarrow> (kvkey \<times> jsval \<times> nat) list \<Rightarrow> kvop \<Rightarrow> (kvkey \<times> jsval \<times> nat) list" where
  "apply_op stamp es op =
     (case op of
        SetOp k v \<Rightarrow> insert_entry k (v, stamp) (remove_key k es)
      | DeleteOp k \<Rightarrow> remove_key k es)"

definition kv_get :: "kvstore \<Rightarrow> kvkey \<Rightarrow> jsval \<times> nat option" where
  \<comment> \<open>\<open>kv.get(key)\<close>: the value and the versionstamp, both \<open>null\<close> for a missing key\<close>
  "kv_get kv k =
     (case map_of (entries kv) k of
        None \<Rightarrow> (Null, None)
      | Some (v, stamp) \<Rightarrow> (v, Some stamp))"

definition atomic_commit :: "kvstore \<Rightarrow> (kvkey \<times> nat option) list \<Rightarrow> kvop list \<Rightarrow> kvstore option" where
  \<comment> \<open>\<open>kv.atomic().check(...)...commit()\<close>: \<open>None\<close> is the result \<open>{ ok: false }\<close>\<close>
  "atomic_commit kv checks ops =
     (if list_all (\<lambda>c. snd (kv_get kv (fst c)) = snd c) checks
      then Some \<lparr> entries = foldl (apply_op (clock kv)) (entries kv) ops,
                  clock = Suc (clock kv) \<rparr>
      else None)"

definition kv_set :: "kvstore \<Rightarrow> kvkey \<Rightarrow> jsval \<Rightarrow> kvstore" where
  "kv_set kv k v =
     \<lparr> entries = apply_op (clock kv) (entries kv) (SetOp k v), clock = Suc (clock kv) \<rparr>"

definition kv_delete :: "kvstore \<Rightarrow> kvkey \<Rightarrow> kvstore" where
  "kv_delete kv k =
     \<lparr> entries = apply_op (clock kv) (entries kv) (DeleteOp k), clock = Suc (clock kv) \<rparr>"

definition is_under :: "kvkey \<Rightarrow> kvkey \<Rightarrow> bool" where
  \<comment> \<open>the key extends the prefix; the prefix itself is not in its own range\<close>
  "is_under prefix k = (length prefix < length k \<and> take (length prefix) k = prefix)"

definition kv_list :: "kvstore \<Rightarrow> kvkey \<Rightarrow> (kvkey \<times> jsval) list" where
  \<comment> \<open>\<open>kv.list({ prefix })\<close>\<close>
  "kv_list kv prefix =
     map (\<lambda>e. (fst e, fst (snd e))) (filter (\<lambda>e. is_under prefix (fst e)) (entries kv))"

definition empty_kv :: kvstore where
  "empty_kv = \<lparr> entries = [], clock = 0 \<rparr>"

section \<open>Object identifiers\<close>

definition is_hex_char :: "char \<Rightarrow> bool" where
  "is_hex_char c =
     (let n = (of_char c :: nat) in
      (48 \<le> n \<and> n \<le> 57) \<or> (65 \<le> n \<and> n \<le> 70) \<or> (97 \<le> n \<and> n \<le> 102))"

definition lower_hex :: "char \<Rightarrow> char" where
  "lower_hex c =
     (let n = (of_char c :: nat) in if 65 \<le> n \<and> n \<le> 70 then char_of (n + 32) else c)"

definition ObjectId_new :: "jsval \<Rightarrow> error + jsval" where
  \<comment> \<open>\<open>new ObjectId(id)\<close>: a string of 24 hexadecimal digits, or an \<open>ObjectId\<close>, is
      accepted, every other string is rejected. Without an argument the constructor
      draws a new identifier, which no document stored by this code leads to.\<close>
  "ObjectId_new v =
     (case v of
        Str s \<Rightarrow> if length s = 24 \<and> list_all is_hex_char s
                 then Inr (Oid (map lower_hex s)) else Inl BSONError
      | Oid x \<Rightarrow> Inr (Oid x)
      | _ \<Rightarrow> Inl Unmodelled)"

definition id_toString :: "jsval \<Rightarrow> error + string" where
  \<comment> \<open>\<open>id.toString()\<close>\<close>
  "id_toString v =
     (if nullish v then Inl TypeError
      else (case js_String v of Some s \<Rightarrow> Inr s | None \<Rightarrow> Inl Unmodelled))"

definition getKvKey :: "string \<Rightarrow> string \<Rightarrow> kvkey" where
  \<comment> \<open>\<open>[this.collectionName, id.toString()]\<close>\<close>
  "getKvKey collectionName idString = [KStr collectionName, KStr idString]"

section \<open>Serialization of indexed values\<close>

definition pad_nat :: "nat \<Rightarrow> nat \<Rightarrow> string" where
  "pad_nat width n = replicate (width - length (show_nat n)) (CHR ''0'') @ show_nat n"

definition civil_year_month_day :: "int \<Rightarrow> int \<times> nat \<times> nat" where
  \<comment> \<open>the proleptic Gregorian date of a day number counted from 1970-01-01\<close>
  "civil_year_month_day days =
     (let z = days + 719468;
          era = z div 146097;
          doe = z - era * 146097;
          yoe = (doe - doe div 1460 + doe div 36524 - doe div 146096) div 365;
          doy = doe - (365 * yoe + yoe div 4 - yoe div 100);
          mp = (5 * doy + 2) div 153;
          d = doy - (153 * mp + 2) div 5 + 1;
          m = (if mp < 10 then mp + 3 else mp - 9);
          y = yoe + era * 400 + (if m \<le> 2 then 1 else 0)
      in (y, nat m, nat d))"

definition valid_time :: "int \<Rightarrow> bool" where
  "valid_time t = (- 8640000000000000 \<le> t \<and> t \<le> 8640000000000000)"

definition toISOString :: "int \<Rightarrow> string" where
  \<comment> \<open>\<open>date.toISOString()\<close> of a valid time value\<close>
  "toISOString t =
     (let days = t div 86400000;
          ms = nat (t mod 86400000);
          ymd = civil_year_month_day days;
          y = fst ymd;
          year = (if 0 \<le> y \<and> y \<le> 9999 then pad_nat 4 (nat y)
                  else (if y < 0 then ''-'' else ''+'') @ pad_nat 6 (nat (abs y)))
      in year @ ''-'' @ pad_nat 2 (fst (snd ymd)) @ ''-'' @ pad_nat 2 (snd (snd ymd)) @ ''T'' @
         pad_nat 2 (ms div 3600000) @ '':'' @ pad_nat 2 (ms div 60000 mod 60) @ '':'' @
         pad_nat 2 (ms div 1000 mod 60) @ ''.'' @ pad_nat 3 (ms mod 1000) @ ''Z'')"

definition hex_digit :: "nat \<Rightarrow> char" where
  "hex_digit n = (if n < 10 then char_of (48 + n) else char_of (87 + n))"

definition json_escape :: "char \<Rightarrow> string" where
  "json_escape c =
     (let n = (of_char c :: nat) in
      if n = 34 then [CHR 0x5C, CHR 0x22]
      else if n = 92 then [CHR 0x5C, CHR 0x5C]
      else if n = 8 then [CHR 0x5C, CHR ''b'']
      else if n = 12 then [CHR 0x5C, CHR ''f'']
      else if n = 10 then [CHR 0x5C, CHR ''n'']
      else if n = 13 then [CHR 0x5C, CHR ''r'']
      else if n = 9 then [CHR 0x5C, CHR ''t'']
      else if n < 32 then [CHR 0x5C, CHR ''u'', CHR ''0'', CHR ''0'', hex_digit (n div 16), hex_digit (n mod 16)]
      else [c])"

definition json_string :: "string \<Rightarrow> string" where
  "json_string s = CHR 0x22 # concat (map json_escape s) @ [CHR 0x22]"

fun join_with :: "string \<Rightarrow> string list \<Rightarrow> string" where
  \<comment> \<open>\<open>xs.join(sep)\<close>\<close>
  "join_with sep [] = []"
| "join_with sep [x] = x"
| "join_with sep (x # y # ys) = x @ sep @ join_with sep (y # ys)"

fun json :: "jsval \<Rightarrow> string"
  and json_items :: "jsval list \<Rightarrow> string list"
  and json_props :: "(string \<times> jsval) list \<Rightarrow> string list"
where
  \<comment> \<open>\<open>JSON.stringify(v)\<close>; \<open>undefined\<close> prints as \<open>null\<close> in an array and is left out
      of an object, a \<open>Date\<close> and an \<open>ObjectId\<close> print through their \<open>toJSON\<close>\<close>
  "json Undefined = ''null''"
| "json Null = ''null''"
| "json (Bool b) = (if b then ''true'' else ''false'')"
| "json (Num n) = show_int n"
| "json NaN = ''null''"
| "json (Str s) = json_string s"
| "json (DateV t) = (if valid_time t then json_string (toISOString t) else ''null'')"
| "json (Oid x) = json_string x"
| "json (Arr xs) = ''['' @ join_with '','' (json_items xs) @ '']''"
| "json (Obj kvs) = ''{'' @ join_with '','' (json_props kvs) @ ''}''"
| "json_items [] = []"
| "json_items (x # xs) = json x # json_items xs"
| "json_props [] = []"
| "json_props ((k, v) # kvs) =
     (if v = Undefined then json_props kvs
      else (json_string k @ '':'' @ json v) # json_props kvs)"

definition serializeIndexValue :: "jsval \<Rightarrow> error + jsval" where
  "serializeIndexValue v =
     (case v of
        DateV t \<Rightarrow> if valid_time t then Inr (Str (toISOString t)) else Inl RangeError
      | Oid x \<Rightarrow> Inr (Str x)
      | Null \<Rightarrow> Inr (Str [])
      | Undefined \<Rightarrow> Inr (Str [])
      | Str s \<Rightarrow> Inr v
      | Num n \<Rightarrow> Inr v
      | NaN \<Rightarrow> Inr v
      | Bool b \<Rightarrow> Inr v
      | _ \<Rightarrow> Inr (Str (json v)))"

definition to_kpart :: "jsval \<Rightarrow> kpart" where
  \<comment> \<open>a serialized value as a part of a key\<close>
  "to_kpart v = (case v of Num n \<Rightarrow> KNum n | NaN \<Rightarrow> KNaN | Bool b \<Rightarrow> KBool b | Str s \<Rightarrow> KStr s | _ \<Rightarrow> KStr [])"

definition part_String :: "kpart \<Rightarrow> string" where
  \<comment> \<open>\<open>String(part)\<close> of a part of a key\<close>
  "part_String p =
     (case p of
        KStr s \<Rightarrow> s
      | KNum n \<Rightarrow> show_int n
      | KNaN \<Rightarrow> ''NaN''
      | KBool b \<Rightarrow> (if b then ''true'' else ''false''))"

section \<open>Projection, sorting and the options of \<open>find\<close>\<close>

record find_options =
  opt_sort :: "(string \<times> int) list option"
  opt_limit :: "int option"
  opt_skip :: "int option"
  opt_projection :: "jsval"

definition no_options :: find_options where
  \<comment> \<open>the options object \<open>{}\<close>\<close>
  "no_options = \<lparr> opt_sort = None, opt_limit = None, opt_skip = None, opt_projection = Undefined \<rparr>"

definition mixed_projection_message :: string where
  "mixed_projection_message = ''Projection cannot have a mix of inclusion and exclusion''"

definition include_entry :: "jsval \<Rightarrow> jsval \<Rightarrow> string \<times> jsval \<Rightarrow> error + jsval" where
  \<comment> \<open>the body of the loop of the include mode of \<open>applyProjection\<close>\<close>
  "include_entry doc result e =
     (if strict_eq (snd e) (Num 1) \<or> fst e = ''_id'' then
        (let val = getNestedValue doc (fst e) in
         if val \<noteq> Undefined then setNestedValue result (fst e) val else Inr result)
      else Inr result)"

definition exclude_entry :: "jsval \<Rightarrow> jsval \<Rightarrow> string \<times> jsval \<Rightarrow> jsval" where
  \<comment> \<open>the body of the loop of the exclude mode of \<open>applyProjection\<close>\<close>
  "exclude_entry projection result e =
     (if \<not> strict_eq (js_prop projection (fst e)) (Num 0) \<and> fst e \<noteq> ''_id''
      then Obj (obj_set (obj_entries result) (fst e) (snd e)) else result)"

definition no_projection :: "jsval \<Rightarrow> bool" where
  \<comment> \<open>\<open>!projection || Object.keys(projection).length === 0\<close>\<close>
  "no_projection projection = (\<not> truthy projection \<or> own_keys projection = [])"

definition applyProjection :: "jsval \<Rightarrow> jsval \<Rightarrow> error + jsval" where
  "applyProjection doc projection =
     (if no_projection projection then Inr doc
      else
        let vals = map snd (filter (\<lambda>e. fst e \<noteq> ''_id'') (entries_of projection)) in
        if vals \<noteq> [] \<and> list_ex (\<lambda>v. strict_eq v (Num 1)) vals \<and>
           list_ex (\<lambda>v. strict_eq v (Num 0)) vals
        then Inl (Error mixed_projection_message)
        else
          let result = Obj [(''_id'', js_prop doc ''_id'')];
              includeMode = list_ex (\<lambda>v. strict_eq v (Num 1) \<or> strict_eq v (Bool True)) vals
          in if includeMode
             then forEach_err (include_entry doc) (entries_of projection) result
             else Inr (foldl (exclude_entry projection) result (entries_of doc)))"

fun isIncludeLoop :: "(string \<times> jsval) list \<Rightarrow> bool option \<Rightarrow> error + bool option" where
  "isIncludeLoop [] includeMode = Inr includeMode"
| "isIncludeLoop ((field, v) # rest) includeMode =
     (if field = ''_id'' then isIncludeLoop rest includeMode
      else (case includeMode of
              None \<Rightarrow> isIncludeLoop rest (Some (truthy v))
            | Some m \<Rightarrow>
                if truthy v \<noteq> m then Inl (Error (mixed_projection_message @ ''.''))
                else isIncludeLoop rest includeMode))"

definition isIncludeProjection :: "jsval \<Rightarrow> error + bool" where
  "isIncludeProjection projection =
     bind_err (isIncludeLoop (entries_of projection) None)
       (\<lambda>includeMode. Inr (includeMode \<noteq> Some False))"

definition cursor_include_entry :: "jsval \<Rightarrow> jsval \<Rightarrow> string \<times> jsval \<Rightarrow> error + jsval" where
  "cursor_include_entry doc result e =
     (if fst e = ''_id'' then Inr result
      else if truthy (snd e) then
        (let val = getNestedValue doc (fst e) in
         if val \<noteq> Undefined then setNestedValue result (fst e) val else Inr result)
      else Inr result)"

definition cursor_exclude_entry :: "jsval \<Rightarrow> string \<times> jsval \<Rightarrow> error + jsval" where
  "cursor_exclude_entry result e =
     (if fst e \<noteq> ''_id'' \<or> truthy (snd e) then deleteNestedField result (fst e)
      else Inr result)"

definition project_doc :: "jsval \<Rightarrow> jsval \<Rightarrow> error + jsval" where
  \<comment> \<open>the function that \<open>Cursor.project\<close> maps over the documents\<close>
  "project_doc projection doc =
     (let result = Obj [(''_id'', js_prop doc ''_id'')] in
      bind_err (isIncludeProjection projection) (\<lambda>includeMode.
        if includeMode
        then forEach_err (cursor_include_entry doc) (entries_of projection) result
        else forEach_err cursor_exclude_entry (entries_of projection)
               (foldl (\<lambda>r e. Obj (obj_set (obj_entries r) (fst e) (snd e))) result (entries_of doc))))"

fun map_err :: "('a \<Rightarrow> error + 'b) \<Rightarrow> 'a list \<Rightarrow> error + 'b list" where
  "map_err f [] = Inr []"
| "map_err f (x # xs) = bind_err (f x) (\<lambda>y. bind_err (map_err f xs) (\<lambda>ys. Inr (y # ys)))"

definition project :: "jsval list \<Rightarrow> jsval \<Rightarrow> error + jsval list" where
  \<comment> \<open>\<open>Cursor.project\<close> on the documents of the cursor\<close>
  "project documents projection = map_err (project_doc projection) documents"

fun compare_docs :: "(string \<times> int) list \<Rightarrow> jsval \<Rightarrow> jsval \<Rightarrow> error + int" where
  \<comment> \<open>the comparison function of \<open>sortDocuments\<close>. The order of two different
      \<open>ObjectId\<close>s is the order of their byte buffers printed as text, which the host
      decides.\<close>
  "compare_docs [] a b = Inr 0"
| "compare_docs ((field, direction) # rest) a b =
     (let aVal = getNestedValue a field; bVal = getNestedValue b field in
      if strict_eq aVal bVal then compare_docs rest a b
      else if is_oid aVal \<and> is_oid bVal then
        (if aVal = bVal then Inr 0 else Inl Unmodelled)
      else if nullish aVal then Inr direction
      else if nullish bVal then Inr (- direction)
      else if host_dependent aVal \<or> host_dependent bVal then Inl Unmodelled
      else if js_lt aVal bVal then Inr (- direction)
      else if js_gt aVal bVal then Inr direction
      else compare_docs rest a b)"

fun insert_sorted :: "(string \<times> int) list \<Rightarrow> jsval \<Rightarrow> jsval list \<Rightarrow> error + jsval list" where
  "insert_sorted spec x [] = Inr [x]"
| "insert_sorted spec x (y # ys) =
     bind_err (compare_docs spec x y) (\<lambda>c.
       if c \<le> 0 then Inr (x # y # ys)
       else bind_err (insert_sorted spec x ys) (\<lambda>r. Inr (y # r)))"

fun sortDocuments :: "jsval list \<Rightarrow> (string \<times> int) list \<Rightarrow> error + jsval list" where
  \<comment> \<open>\<open>[...docs].sort(compare)\<close>: the sort of the host is stable, so for a comparison
      function that is an order it returns what a stable insertion sort returns\<close>
  "sortDocuments [] spec = Inr []"
| "sortDocuments (d # ds) spec = bind_err (sortDocuments ds spec) (insert_sorted spec d)"

definition js_slice :: "'a list \<Rightarrow> int \<Rightarrow> int option \<Rightarrow> 'a list" where
  \<comment> \<open>\<open>xs.slice(start, end)\<close>; a negative position counts from the end\<close>
  "js_slice xs start end_opt =
     (let len = int (length xs);
          clamp = (\<lambda>i. if i < 0 then max (len + i) 0 else min i len);
          s = clamp start;
          e = (case end_opt of None \<Rightarrow> len | Some i \<Rightarrow> clamp i)
      in take (nat (e - s)) (drop (nat s) xs))"

definition applyFindOptions :: "jsval list \<Rightarrow> find_options \<Rightarrow> error + jsval list" where
  "applyFindOptions results options =
     bind_err (case opt_sort options of
                 None \<Rightarrow> Inr results
               | Some spec \<Rightarrow> sortDocuments results spec)
       (\<lambda>sorted.
          let skip = (case opt_skip options of None \<Rightarrow> 0 | Some k \<Rightarrow> k);
              stop = (case opt_limit options of
                        None \<Rightarrow> None
                      | Some l \<Rightarrow> if l \<noteq> 0 then Some (skip + l) else None);
              processed = js_slice sorted skip stop
          in if truthy (opt_projection options)
             then map_err (\<lambda>doc. applyProjection doc (opt_projection options)) processed
             else Inr processed)"

section \<open>Reading a collection\<close>

definition prop_of :: "jsval \<Rightarrow> string \<Rightarrow> error + jsval" where
  \<comment> \<open>\<open>v.name\<close>: a \<open>TypeError\<close> on \<open>null\<close> and \<open>undefined\<close>\<close>
  "prop_of v name = (if nullish v then Inl TypeError else Inr (js_prop v name))"

definition keys_of :: "jsval \<Rightarrow> error + string list" where
  \<comment> \<open>\<open>Object.keys(v)\<close>\<close>
  "keys_of v = (if nullish v then Inl TypeError else Inr (own_keys v))"

definition js_or :: "jsval \<Rightarrow> jsval \<Rightarrow> jsval" where
  \<comment> \<open>\<open>a || b\<close>\<close>
  "js_or a b = (if truthy a then a else b)"

definition index_prefix :: "string \<Rightarrow> kvkey" where
  "index_prefix collectionName = [KStr ''__indexes__'', KStr collectionName]"

definition with_id :: "jsval \<Rightarrow> error + jsval" where
  \<comment> \<open>\<open>doc.id = this.deserializeObjectId(doc.id)\<close> on a stored value\<close>
  "with_id v =
     (case v of
        Obj kvs \<Rightarrow> bind_err (ObjectId_new (obj_get kvs ''_id''))
                     (\<lambda>oid. Inr (Obj (obj_set kvs ''_id'' oid)))
      | Arr xs \<Rightarrow> Inl Unmodelled
      | DateV t \<Rightarrow> Inl Unmodelled
      | Oid x \<Rightarrow> Inl Unmodelled
      | _ \<Rightarrow> Inl TypeError)"

definition findOneById :: "string \<Rightarrow> kvstore \<Rightarrow> string \<Rightarrow> error + jsval" where
  \<comment> \<open>the first branch of \<open>findOne\<close>, taken when \<open>filter.id\<close> is an \<open>ObjectId\<close>; the
      result \<open>Null\<close> is \<open>null\<close>\<close>
  "findOneById collectionName kv idString =
     (let result = kv_get kv (getKvKey collectionName idString) in
      if \<not> truthy (fst result) then Inr Null else with_id (fst result))"

definition indexable_ops :: "string list" where
  "indexable_ops = [''$eq'', ''$gt'', ''$gte'', ''$lt'', ''$lte'', ''$in'']"

definition canUseIndexForQuery :: "jsval \<Rightarrow> jsval \<Rightarrow> error + bool" where
  "canUseIndexForQuery indexSpec flt =
     bind_err (prop_of indexSpec ''key'') (\<lambda>key. bind_err (keys_of key) (\<lambda>indexFields.
       if length indexFields = 1 then
         (let field = hd indexFields in
          bind_err (js_in field flt) (\<lambda>present.
            Inr (present \<and>
                 (typeof (js_prop flt field) \<noteq> ''object'' \<or>
                  (js_prop flt field \<noteq> Null \<and>
                   list_ex (\<lambda>op. op \<in> set indexable_ops) (own_keys (js_prop flt field)))))))
       else
         (let firstField = (case indexFields of [] \<Rightarrow> ''undefined'' | f # _ \<Rightarrow> f) in
          bind_err (js_in firstField flt) (\<lambda>present.
            if \<not> present then Inr False
            else Inr (list_all (\<lambda>field. has_own flt field) (tl indexFields))))))"

fun findUsableIndexLoop :: "(kvkey \<times> jsval) list \<Rightarrow> jsval \<Rightarrow> error + jsval" where
  "findUsableIndexLoop [] flt = Inr Null"
| "findUsableIndexLoop (entry # rest) flt =
     bind_err (prop_of (snd entry) ''spec'') (\<lambda>spec.
     bind_err (canUseIndexForQuery spec flt) (\<lambda>usable.
       if usable then Inr (snd entry) else findUsableIndexLoop rest flt))"

definition findUsableIndex :: "string \<Rightarrow> kvstore \<Rightarrow> jsval \<Rightarrow> error + jsval" where
  "findUsableIndex collectionName kv flt =
     findUsableIndexLoop (kv_list kv (index_prefix collectionName)) flt"

definition not_an_object :: "jsval \<Rightarrow> bool" where
  \<comment> \<open>\<open>typeof condition !== "object" || condition === null\<close>\<close>
  "not_an_object condition = (typeof condition \<noteq> ''object'' \<or> condition = Null)"

definition isRangeQuery :: "jsval \<Rightarrow> bool" where
  "isRangeQuery condition =
     (if not_an_object condition then False
      else list_ex (\<lambda>op. op \<in> set [''$gt'', ''$gte'', ''$lt'', ''$lte'']) (own_keys condition))"

definition getQueryValue :: "jsval \<Rightarrow> error + jsval" where
  "getQueryValue condition =
     (if condition = Null \<or> typeof condition \<noteq> ''object'' then Inr condition
      else if has_own condition ''$eq'' then Inr (js_prop condition ''$eq'')
      else if has_own condition ''$in'' then prop_of (js_prop condition ''$in'') ''0''
      else Inr condition)"

definition doc_id_string :: "jsval \<Rightarrow> error + string" where
  \<comment> \<open>\<open>doc.id.toString()\<close>\<close>
  "doc_id_string doc = bind_err (prop_of doc ''_id'') id_toString"

fun collectByIndex ::
  "string \<Rightarrow> kvstore \<Rightarrow> jsval \<Rightarrow> (kvkey \<times> jsval) list \<Rightarrow> string list \<times> jsval list \<Rightarrow>
   error + string list \<times> jsval list" where
  \<comment> \<open>the loop over the entries of an index: fetch the document of each entry, check
      it against the whole filter, keep it unless its identifier was seen\<close>
  "collectByIndex c kv flt [] acc = Inr acc"
| "collectByIndex c kv flt (entry # rest) acc =
     bind_err (prop_of (snd entry) ''_id'') (\<lambda>docId.
     bind_err (ObjectId_new docId) (\<lambda>oid.
     bind_err (id_toString oid) (\<lambda>idString.
     bind_err (findOneById c kv idString) (\<lambda>doc.
       if truthy doc \<and> matchesFilter doc flt then
         bind_err (doc_id_string doc) (\<lambda>idStr.
           if idStr \<in> set (fst acc) then collectByIndex c kv flt rest acc
           else collectByIndex c kv flt rest (fst acc @ [idStr], snd acc @ [doc]))
       else collectByIndex c kv flt rest acc))))"

fun scanDocuments :: "jsval \<Rightarrow> (kvkey \<times> jsval) list \<Rightarrow> error + jsval list" where
  \<comment> \<open>the loop of \<open>findWithoutIndex\<close>\<close>
  "scanDocuments flt [] = Inr []"
| "scanDocuments flt (entry # rest) =
     (if length (fst entry) \<noteq> 2 then scanDocuments flt rest
      else bind_err (with_id (snd entry)) (\<lambda>doc.
             bind_err (scanDocuments flt rest) (\<lambda>found.
               Inr (if matchesFilter doc flt then doc # found else found))))"

definition findWithoutIndex :: "string \<Rightarrow> kvstore \<Rightarrow> jsval \<Rightarrow> find_options \<Rightarrow> error + jsval list" where
  "findWithoutIndex c kv flt options =
     bind_err (scanDocuments flt (kv_list kv [KStr c])) (\<lambda>results.
       applyFindOptions results options)"

definition range_bound_ok :: "jsval \<Rightarrow> kpart \<Rightarrow> error + bool" where
  \<comment> \<open>the test of one index entry against the bounds of a range condition: the entry's
      serialized value and the serialized bounds are compared as strings\<close>
  "range_bound_ok condition indexValue =
     (let start = js_or (js_prop condition ''$gt'') (js_prop condition ''$gte'');
          end = js_or (js_prop condition ''$lt'') (js_prop condition ''$lte'');
          strIndexValue = part_String indexValue
      in bind_err
           (if start \<noteq> Undefined then
              bind_err (serializeIndexValue start) (\<lambda>startValue.
                let strStartValue = part_String (to_kpart startValue) in
                Inr (if truthy (js_prop condition ''$gt'')
                     then str_less strStartValue strIndexValue
                     else \<not> str_less strIndexValue strStartValue))
            else Inr True)
           (\<lambda>matches.
              if end \<noteq> Undefined \<and> matches then
                bind_err (serializeIndexValue end) (\<lambda>endValue.
                  let strEndValue = part_String (to_kpart endValue) in
                  Inr (if truthy (js_prop condition ''$lt'')
                       then str_less strIndexValue strEndValue
                       else \<not> str_less strEndValue strIndexValue))
              else Inr matches))"

fun collectByRange ::
  "string \<Rightarrow> kvstore \<Rightarrow> jsval \<Rightarrow> jsval \<Rightarrow> (kvkey \<times> jsval) list \<Rightarrow> string list \<times> jsval list \<Rightarrow>
   error + string list \<times> jsval list" where
  "collectByRange c kv condition flt [] acc = Inr acc"
| "collectByRange c kv condition flt (entry # rest) acc =
     bind_err (range_bound_ok condition (fst entry ! 3)) (\<lambda>matches.
       if matches then
         bind_err (collectByIndex c kv flt [entry] acc) (collectByRange c kv condition flt rest)
       else collectByRange c kv condition flt rest acc)"

definition findUsingIndexRange ::
  "string \<Rightarrow> kvstore \<Rightarrow> string \<Rightarrow> jsval \<Rightarrow> jsval \<Rightarrow> find_options \<Rightarrow> error + jsval list" where
  \<comment> \<open>an exception inside the loop is caught and the full scan answers instead\<close>
  "findUsingIndexRange c kv field condition fullFilter options =
     (case collectByRange c kv condition fullFilter
             (kv_list kv [KStr c, KStr ''__idx__'', KStr field]) ([], []) of
        Inl Unmodelled \<Rightarrow> Inl Unmodelled
      | Inl e \<Rightarrow> findWithoutIndex c kv fullFilter options
      | Inr acc \<Rightarrow> applyFindOptions (snd acc) options)"

definition findUsingIndex ::
  "string \<Rightarrow> kvstore \<Rightarrow> jsval \<Rightarrow> jsval \<Rightarrow> find_options \<Rightarrow> error + jsval list" where
  "findUsingIndex c kv indexInfo flt options =
     bind_err (prop_of indexInfo ''spec'') (\<lambda>spec.
     bind_err (prop_of spec ''key'') (\<lambda>key.
     bind_err (keys_of key) (\<lambda>indexFields.
       if length indexFields = 1 then
         (let field = hd indexFields; condition = js_prop flt field in
          if isRangeQuery condition then findUsingIndexRange c kv field condition flt options
          else
            bind_err (getQueryValue condition) (\<lambda>v.
            bind_err (serializeIndexValue v) (\<lambda>serializedValue.
            bind_err (collectByIndex c kv flt
                        (kv_list kv [KStr c, KStr ''__idx__'', KStr field, to_kpart serializedValue])
                        ([], []))
              (\<lambda>acc. applyFindOptions (snd acc) options))))
       else
         (case indexFields of
            [] \<Rightarrow> Inl TypeError
          | firstField # _ \<Rightarrow>
              bind_err (serializeIndexValue (js_prop flt firstField)) (\<lambda>serializedValue.
              bind_err (collectByIndex c kv flt
                          (kv_list kv [KStr c, KStr ''__idx__'', KStr firstField,
                                       KStr (part_String (to_kpart serializedValue))])
                          ([], []))
                (\<lambda>acc. applyFindOptions (snd acc) options))))))"

definition find :: "string \<Rightarrow> kvstore \<Rightarrow> jsval \<Rightarrow> find_options \<Rightarrow> error + jsval list" where
  \<comment> \<open>the documents of the cursor that \<open>find\<close> returns\<close>
  "find c kv flt options =
     bind_err (findUsableIndex c kv flt) (\<lambda>usableIndex.
       if truthy usableIndex then findUsingIndex c kv usableIndex flt options
       else findWithoutIndex c kv flt options)"

definition findOne :: "string \<Rightarrow> kvstore \<Rightarrow> jsval \<Rightarrow> find_options \<Rightarrow> error + jsval" where
  "findOne c kv flt options =
     bind_err (js_in ''_id'' flt) (\<lambda>present.
       if present \<and> is_oid (js_prop flt ''_id'') then
         bind_err (id_toString (js_prop flt ''_id'')) (findOneById c kv)
       else
         bind_err (find c kv flt
                     (options \<lparr> opt_limit :=
                        (case opt_limit options of None \<Rightarrow> Some 1 | Some l \<Rightarrow> Some l) \<rparr>))
           (\<lambda>results. Inr (case results of [] \<Rightarrow> Null | r # _ \<Rightarrow> js_or r Null)))"

definition has_count_options :: "int option \<Rightarrow> int option \<Rightarrow> bool" where
  \<comment> \<open>\<open>options.limit !== undefined || options.skip !== undefined\<close>\<close>
  "has_count_options limit skip = (limit \<noteq> None \<or> skip \<noteq> None)"

definition countDocuments ::
  "string \<Rightarrow> kvstore \<Rightarrow> jsval \<Rightarrow> int option \<Rightarrow> int option \<Rightarrow> error + int" where
  \<comment> \<open>the last two arguments are \<open>options.limit\<close> and \<open>options.skip\<close>\<close>
  "countDocuments c kv flt limit skip =
     bind_err (find c kv flt no_options) (\<lambda>results.
       if has_count_options limit skip then
         (let start = (case skip of None \<Rightarrow> 0 | Some k \<Rightarrow> k);
              end = (case limit of None \<Rightarrow> int (length results) | Some l \<Rightarrow> start + l)
          in Inr (min (max 0 (int (length results) - start)) (end - start)))
       else Inr (int (length results)))"

definition estimatedDocumentCount :: "string \<Rightarrow> kvstore \<Rightarrow> nat" where
  \<comment> \<open>every entry under the prefix \<open>[collectionName]\<close> adds one\<close>
  "estimatedDocumentCount c kv = length (kv_list kv [KStr c])"

section \<open>Writing a collection\<close>

record insert_one_result =
  ins_acknowledged :: bool
  insertedId :: jsval



fun uniqueCheck :: "string \<Rightarrow> string \<Rightarrow> (kvkey \<times> jsval) list \<Rightarrow> error + unit" where
  \<comment> \<open>the loop that looks for another document under the same serialized value\<close>
  "uniqueCheck field idString [] = Inr ()"
| "uniqueCheck field idString (entry # rest) =
     bind_err (prop_of (snd entry) ''_id'') (\<lambda>existingId.
       if truthy existingId \<and> \<not> strict_eq existingId (Str idString)
       then Inl (Error (''Duplicate key error: '' @ field))
       else uniqueCheck field idString rest)"

definition indexKey :: "string \<Rightarrow> string \<Rightarrow> jsval \<Rightarrow> string \<Rightarrow> kvkey" where
  \<comment> \<open>\<open>[collection, "__idx__", field, serializedValue, docId]\<close>\<close>
  "indexKey c field serializedValue idString =
     [KStr c, KStr ''__idx__'', KStr field, to_kpart serializedValue, KStr idString]"

definition indexField ::
  "string \<Rightarrow> jsval \<Rightarrow> jsval \<Rightarrow> kvstore \<Rightarrow> string \<Rightarrow> error + kvstore" where
  \<comment> \<open>the body of the loop of \<open>updateIndexEntry\<close>: the index entry of one field is
      written in a commit of its own\<close>
  "indexField c doc options kv field =
     bind_err (serializeIndexValue (getNestedValue doc field)) (\<lambda>serializedValue.
     bind_err (doc_id_string doc) (\<lambda>idString.
     bind_err (prop_of options ''unique'') (\<lambda>unique.
     bind_err (if truthy unique
               then uniqueCheck field idString
                      (kv_list kv [KStr c, KStr ''__idx__'', KStr field, to_kpart serializedValue])
               else Inr ())
       (\<lambda>_. case atomic_commit kv []
                  [SetOp (indexKey c field serializedValue idString)
                     (Obj [(''_id'', Str idString)])] of
               None \<Rightarrow> Inr kv
             | Some kv' \<Rightarrow> Inr kv'))))"

definition updateIndexEntry ::
  "string \<Rightarrow> kvstore \<Rightarrow> jsval \<Rightarrow> jsval \<Rightarrow> jsval \<Rightarrow> error + kvstore" where
  "updateIndexEntry c kv doc indexSpec options =
     bind_err (prop_of indexSpec ''key'') (\<lambda>key.
     bind_err (keys_of key) (\<lambda>fields.
       forEach_err (indexField c doc options) fields kv))"

definition indexWithInfo :: "string \<Rightarrow> jsval \<Rightarrow> kvstore \<Rightarrow> kvkey \<times> jsval \<Rightarrow> error + kvstore" where
  \<comment> \<open>the body of the loop of \<open>insertOne\<close> over the declared indexes\<close>
  "indexWithInfo c doc kv entry =
     bind_err (prop_of (snd entry) ''spec'') (\<lambda>spec.
     bind_err (prop_of (snd entry) ''options'') (\<lambda>options.
       updateIndexEntry c kv doc spec options))"

definition invalid_document :: "jsval \<Rightarrow> bool" where
  \<comment> \<open>\<open>!doc || typeof doc !== "object"\<close>\<close>
  "invalid_document doc = (\<not> truthy doc \<or> typeof doc \<noteq> ''object'')"

definition insertOne ::
  "string \<Rightarrow> kvstore \<Rightarrow> string \<Rightarrow> jsval \<Rightarrow> error + kvstore \<times> insert_one_result" where
  \<comment> \<open>\<open>fresh\<close> is the identifier that \<open>new ObjectId()\<close> draws when the document has none\<close>
  "insertOne c kv fresh doc =
     (if invalid_document doc then Inl (Error ''Invalid document'')
      else
        let oid = js_or (js_prop doc ''_id'') (Oid fresh) in
        bind_err (id_toString oid) (\<lambda>idString.
          let key = getKvKey c idString;
              docToInsert = Obj (obj_set (entries_of doc) ''_id'' (Str idString))
          in if truthy (fst (kv_get kv key)) then Inl (Error ''Duplicate key error'')
             else
               bind_err (forEach_err (indexWithInfo c (Obj (obj_set (entries_of doc) ''_id'' oid)))
                           (kv_list kv (index_prefix c)) kv)
                 (\<lambda>kv1. case atomic_commit kv1 [(key, None)] [SetOp key docToInsert] of
                          None \<Rightarrow> Inl (Error ''Failed to insert document'')
                        | Some kv2 \<Rightarrow>
                            Inr (kv2, \<lparr> ins_acknowledged = True, insertedId = oid \<rparr>))))"



definition normalizeIndexSpec :: "jsval \<Rightarrow> jsval" where
  "normalizeIndexSpec fieldOrSpec =
     (case fieldOrSpec of
        Str field \<Rightarrow> Obj [(''key'', Obj [(field, Num 1)])]
      | _ \<Rightarrow> fieldOrSpec)"

definition generatedIndexName :: "jsval \<Rightarrow> error + string" where
  \<comment> \<open>the pairs \<open>field_direction\<close> joined by \<open>_\<close>\<close>
  "generatedIndexName key =
     bind_err (map_err (\<lambda>e. case js_String (snd e) of
                               None \<Rightarrow> Inl Unmodelled
                             | Some dir \<Rightarrow> Inr (fst e @ ''_'' @ dir))
                 (entries_of key))
       (\<lambda>names. Inr (join_with ''_'' names))"

fun collectDocuments :: "(kvkey \<times> jsval) list \<Rightarrow> error + jsval list" where
  "collectDocuments [] = Inr []"
| "collectDocuments (entry # rest) =
     (if length (fst entry) = 2
      then bind_err (with_id (snd entry)) (\<lambda>doc.
             bind_err (collectDocuments rest) (\<lambda>docs. Inr (doc # docs)))
      else collectDocuments rest)"

definition backfillKey :: "jsval \<Rightarrow> string list \<Rightarrow> string \<Rightarrow> error + string list" where
  \<comment> \<open>one step of the uniqueness check of \<open>createIndex\<close>: the text \<open>field:value\<close> must
      not have been seen\<close>
  "backfillKey doc seen field =
     bind_err (serializeIndexValue (getNestedValue doc field)) (\<lambda>serializedValue.
       let key = field @ '':'' @ part_String (to_kpart serializedValue) in
       if key \<in> set seen then Inl (Error (''Duplicate key error: '' @ field))
       else Inr (seen @ [key]))"

definition valid_option_keys :: "string list" where
  "valid_option_keys = [''unique'', ''sparse'', ''name'']"

definition invalid_index_key :: "jsval \<Rightarrow> bool" where
  \<comment> \<open>\<open>!indexSpec.key || Object.keys(indexSpec.key).length === 0\<close>\<close>
  "invalid_index_key key = (\<not> truthy key \<or> own_keys key = [])"

definition createIndex :: "string \<Rightarrow> kvstore \<Rightarrow> jsval \<Rightarrow> jsval \<Rightarrow> error + kvstore \<times> string" where
  "createIndex c kv fieldOrSpec options =
     bind_err (keys_of options) (\<lambda>optionKeys.
       if filter (\<lambda>k. k \<notin> set valid_option_keys) optionKeys \<noteq> []
       then Inl (Error ''Invalid index options'')
       else
         let indexSpec = normalizeIndexSpec fieldOrSpec in
         bind_err (prop_of indexSpec ''key'') (\<lambda>key.
           if invalid_index_key key then Inl (Error ''Invalid index specification'')
           else
             bind_err (if truthy (js_prop options ''name'')
                       then (case js_prop options ''name'' of
                               Str name \<Rightarrow> Inr name
                             | _ \<Rightarrow> Inl Unmodelled)
                       else generatedIndexName key) (\<lambda>indexName.
               let indexKey = index_prefix c @ [KStr indexName] in
               if truthy (fst (kv_get kv indexKey)) then Inl (Error ''Index already exists'')
               else
                 bind_err (collectDocuments (kv_list kv [KStr c])) (\<lambda>documents.
                 bind_err (if truthy (js_prop options ''unique'')
                           then forEach_err (\<lambda>seen doc. forEach_err (backfillKey doc) (own_keys key) seen)
                                  documents []
                           else Inr [])
                   (\<lambda>_. let kv1 = kv_set kv indexKey
                                     (Obj [(''spec'', indexSpec), (''options'', options)])
                        in bind_err (forEach_err (\<lambda>st doc. updateIndexEntry c st doc indexSpec options)
                                       documents kv1)
                             (\<lambda>kv2. Inr (kv2, indexName)))))))"

definition dropIndex :: "string \<Rightarrow> kvstore \<Rightarrow> string \<Rightarrow> kvstore" where
  \<comment> \<open>one \<open>kv.delete\<close>, of the metadata entry\<close>
  "dropIndex c kv indexName = kv_delete kv (index_prefix c @ [KStr indexName])"

definition listIndexes :: "string \<Rightarrow> kvstore \<Rightarrow> (kvkey \<times> jsval) list" where
  "listIndexes c kv = kv_list kv (index_prefix c)"

section \<open>Predicates of the properties\<close>





section \<open>Example data\<close>

definition ex_id :: string where
  "ex_id = ''650000000000000000000001''"

definition ex_id2 :: string where
  "ex_id2 = ''650000000000000000000002''"

definition ex_indexed_empty :: kvstore where
  \<comment> \<open>the store after \<open>createIndex("age")\<close> on the empty collection \<open>c\<close>\<close>
  "ex_indexed_empty =
     (case createIndex ''c'' empty_kv (Str ''age'') (Obj []) of
        Inr r \<Rightarrow> fst r
      | Inl e \<Rightarrow> empty_kv)"

definition ex_store :: kvstore where
  \<comment> \<open>then \<open>insertOne({ age: 100 })\<close>, which draws the identifier \<open>ex_id\<close>\<close>
  "ex_store =
     (case insertOne ''c'' ex_indexed_empty ex_id (Obj [(''age'', Num 100)]) of
        Inr r \<Rightarrow> fst r
      | Inl e \<Rightarrow> ex_indexed_empty)"




definition ex_age_index :: jsval where
  \<comment> \<open>the metadata that \<open>createIndex("age")\<close> stores\<close>
  "ex_age_index = Obj [(''spec'', Obj [(''key'', Obj [(''age'', Num 1)])]), (''options'', Obj [])]"

definition ex_person :: jsval where
  "ex_person = Obj [(''_id'', Oid ex_id), (''name'', Str ''A''), (''age'', Num 30)]"

section \<open>Properties of the filter evaluator\<close>









section \<open>Properties of the update engine\<close>

text \<open>
  C3. The path \<open>a.c\<close> does not resolve in the document \<open>{ _id, c: 1 }\<close>, since \<open>a\<close> is
  missing. The \<open>$unset\<close> branch leaves its loop at \<open>a\<close> and then deletes the last part
  of the path, \<open>c\<close>, from the object it had reached, the document itself: the field \<open>c\<close>
  is removed. \<open>deleteNestedField\<close> returns at the missing part and changes nothing.
\<close>

theorem unset_past_missing_intermediate_deletes_field:
  "getNestedValue (Obj [(''_id'', Oid ex_id), (''c'', Num 1)]) ''a.c'' = Undefined \<and>
   applyUpdateOperators (Obj [(''_id'', Oid ex_id), (''c'', Num 1)])
     (Obj [(''$unset'', Obj [(''a.c'', Bool True)])]) = Inr (Obj [(''_id'', Oid ex_id)]) \<and>
   deleteNestedField (Obj [(''_id'', Oid ex_id), (''c'', Num 1)]) ''a.c''
     = Inr (Obj [(''_id'', Oid ex_id), (''c'', Num 1)])"
  by code_simp

text \<open>
  C5. \<open>$push\<close> with the operand \<open>{ $each: [] }\<close> appends the operand itself: an existing
  array grows by the mapping, and an absent path becomes an array that holds the mapping.
\<close>

theorem push_each_appends_the_mapping:
  "applyUpdateOperators (Obj [(''_id'', Oid ex_id), (''tags'', Arr [Str ''a''])])
     (Obj [(''$push'', Obj [(''tags'', Obj [(''$each'', Arr [])])])])
     = Inr (Obj [(''_id'', Oid ex_id), (''tags'', Arr [Str ''a'', Obj [(''$each'', Arr [])]])]) \<and>
   applyUpdateOperators (Obj [(''_id'', Oid ex_id)])
     (Obj [(''$push'', Obj [(''tags'', Obj [(''$each'', Arr [])])])])
     = Inr (Obj [(''_id'', Oid ex_id), (''tags'', Arr [Obj [(''$each'', Arr [])]])])"
  by code_simp

section \<open>Properties of projection\<close>

text \<open>
  C8. With the projection \<open>{ name: 1, _id: 0 }\<close> the result of \<open>applyProjection\<close> still
  holds \<open>_id\<close>: the result starts as \<open>{ _id: doc._id }\<close> and the include mode copies
  \<open>_id\<close> once more. With the projection \<open>{ _id: 0 }\<close> alone the exclude mode copies
  every other field and \<open>_id\<close> stays, so the document comes back whole.
  \<open>Cursor.project\<close> keeps \<open>_id\<close> as well, and for \<open>{ _id: 0 }\<close> alone it takes the
  include mode and returns \<open>_id\<close> only. Mixing 1 and 0 on other fields raises the error.
\<close>

theorem projection_keeps_excluded_id:
  "applyProjection ex_person (Obj [(''name'', Num 1), (''_id'', Num 0)])
     = Inr (Obj [(''_id'', Oid ex_id), (''name'', Str ''A'')]) \<and>
   applyProjection ex_person (Obj [(''_id'', Num 0)]) = Inr ex_person \<and>
   project [ex_person] (Obj [(''name'', Num 1), (''_id'', Num 0)])
     = Inr [Obj [(''_id'', Oid ex_id), (''name'', Str ''A'')]] \<and>
   project [ex_person] (Obj [(''_id'', Num 0)]) = Inr [Obj [(''_id'', Oid ex_id)]] \<and>
   applyProjection ex_person (Obj [(''name'', Num 1), (''age'', Num 0)])
     = Inl (Error mixed_projection_message)"
  by code_simp

section \<open>Properties of the store\<close>

lemma map_of_remove_key:
  "map_of (remove_key k es) k' = (if k' = k then None else map_of es k')"
  by (induction es) (auto simp: remove_key_def)




lemma map_of_apply_delete:
  "map_of (apply_op stamp es (DeleteOp k)) k' = (if k' = k then None else map_of es k')"
  by (simp add: apply_op_def map_of_remove_key)



lemma commit_without_checks: "\<exists>kv'. atomic_commit kv [] ops = Some kv'"
  by (simp add: atomic_commit_def)


lemma obj_has_if_defined: "obj_get fs k \<noteq> Undefined \<Longrightarrow> obj_has fs k"
  by (induction fs) (auto split: if_splits)



lemma id_toString_Oid: "id_toString (Oid x) = Inr x"
  by (simp add: id_toString_def nullish_def)


text \<open>
  The example store is what the two calls leave: the metadata of the index, the
  document, and the index entry of the document.
\<close>

lemma ex_store_entries:
  "createIndex ''c'' empty_kv (Str ''age'') (Obj []) = Inr (ex_indexed_empty, ''age_1'') \<and>
   insertOne ''c'' ex_indexed_empty ex_id (Obj [(''age'', Num 100)])
     = Inr (ex_store, \<lparr> ins_acknowledged = True, insertedId = Oid ex_id \<rparr>) \<and>
   entries ex_store =
     [([KStr ''__indexes__'', KStr ''c'', KStr ''age_1''], ex_age_index, 0),
      ([KStr ''c'', KStr ex_id], Obj [(''age'', Num 100), (''_id'', Str ex_id)], 2),
      (indexKey ''c'' ''age'' (Num 100) ex_id, Obj [(''_id'', Str ex_id)], 1)]"
  by code_simp

section \<open>Properties of reading\<close>

lemma findOne_with_oid:
  "obj_get fs ''_id'' = Oid x \<Longrightarrow> findOne c kv (Obj fs) options = findOneById c kv x"
  by (simp add: findOne_def bind_err_def obj_has_if_defined is_oid_def id_toString_Oid)

text \<open>
  C10. When the \<open>_id\<close> entry of the filter is an \<open>ObjectId\<close>, \<open>findOne\<close> reads the entry
  under that identifier and nothing else: it returns \<open>null\<close> when the entry is missing
  (or holds a falsy value) and the stored document, its \<open>_id\<close> made an \<open>ObjectId\<close> again,
  otherwise. The other conditions of the filter and the options do not occur in the
  result.
\<close>

theorem findOne_by_id_skips_other_conditions:
  assumes "obj_get fs ''_id'' = Oid x"
  shows "findOne c kv (Obj fs) options =
           (if truthy (fst (kv_get kv (getKvKey c x)))
            then with_id (fst (kv_get kv (getKvKey c x))) else Inr Null)"
  using assms by (simp add: findOne_with_oid findOneById_def Let_def)

text \<open>
  The stored document has the age 100 and the filter asks for the age 7 under the
  document's identifier: the document is returned. Under an identifier that is not
  stored the result is \<open>null\<close>, although the other condition matches the stored document.
\<close>

theorem findOne_by_id_skips_other_conditions_witness:
  "obj_get [(''_id'', Oid ex_id), (''age'', Num 7)] ''_id'' = Oid ex_id \<and>
   \<not> matchesFilter (Obj [(''age'', Num 100), (''_id'', Oid ex_id)])
        (Obj [(''_id'', Oid ex_id), (''age'', Num 7)]) \<and>
   findOne ''c'' ex_store (Obj [(''_id'', Oid ex_id), (''age'', Num 7)]) no_options
     = Inr (Obj [(''age'', Num 100), (''_id'', Oid ex_id)]) \<and>
   findOne ''c'' ex_store (Obj [(''_id'', Oid ex_id2), (''age'', Num 100)]) no_options = Inr Null"
proof -
  have a: "obj_get [(''_id'', Oid ex_id), (''age'', Num 7)] ''_id'' = Oid ex_id" by simp
  have b: "obj_get [(''_id'', Oid ex_id2), (''age'', Num 100)] ''_id'' = Oid ex_id2" by simp
  have m: "\<not> matchesFilter (Obj [(''age'', Num 100), (''_id'', Oid ex_id)])
              (Obj [(''_id'', Oid ex_id), (''age'', Num 7)])"
    by code_simp
  have g1: "(if truthy (fst (kv_get ex_store (getKvKey ''c'' ex_id)))
             then with_id (fst (kv_get ex_store (getKvKey ''c'' ex_id))) else Inr Null)
            = Inr (Obj [(''age'', Num 100), (''_id'', Oid ex_id)])"
    by code_simp
  have g2: "(if truthy (fst (kv_get ex_store (getKvKey ''c'' ex_id2)))
             then with_id (fst (kv_get ex_store (getKvKey ''c'' ex_id2))) else Inr Null)
            = Inr Null"
    by code_simp
  show ?thesis
    using findOne_by_id_skips_other_conditions [OF a, of "''c''" ex_store no_options]
          findOne_by_id_skips_other_conditions [OF b, of "''c''" ex_store no_options]
          m g1 g2
    by simp
qed















text \<open>
  C9. On the example store, one document under one index, \<open>estimatedDocumentCount\<close>
  counts the document and its index entry, while \<open>countDocuments({})\<close>, whose scan skips
  the keys that are not of length 2, counts the document.
\<close>

theorem estimated_count_includes_index_entries:
  "estimatedDocumentCount ''c'' ex_store = 2 \<and>
   countDocuments ''c'' ex_store (Obj []) None None = Inr 1"
  by code_simp

section \<open>Properties of writing\<close>












lemma kv_get_dropIndex:
  "kv_get (dropIndex c kv name) k =
     (if k = index_prefix c @ [KStr name] then (Null, None) else kv_get kv k)"
  by (simp add: dropIndex_def kv_delete_def kv_get_def map_of_apply_delete)

text \<open>
  C6, as the code has it. \<open>dropIndex\<close> deletes the metadata entry of the index and
  nothing else: every entry under another key is in the store as before, and a key of
  the form \<open>(collection, "__idx__", ...)\<close> is always another key.
\<close>

theorem dropIndex_deletes_metadata_only:
  "kv_get (dropIndex c kv name) (index_prefix c @ [KStr name]) = (Null, None) \<and>
   kv_get (dropIndex c kv name) (KStr c # KStr ''__idx__'' # rest)
     = kv_get kv (KStr c # KStr ''__idx__'' # rest) \<and>
   (\<forall>k. k \<noteq> index_prefix c @ [KStr name] \<longrightarrow> kv_get (dropIndex c kv name) k = kv_get kv k)"
  by (auto simp: kv_get_dropIndex index_prefix_def)

text \<open>On the example store: the metadata of \<open>age_1\<close> is gone, the index entry is read as before.\<close>

theorem dropIndex_deletes_metadata_only_witness:
  "kv_get (dropIndex ''c'' ex_store ''age_1'') (index_prefix ''c'' @ [KStr ''age_1'']) = (Null, None) \<and>
   kv_get (dropIndex ''c'' ex_store ''age_1'')
       [KStr ''c'', KStr ''__idx__'', KStr ''age'', KNum 100, KStr ex_id]
     = (Obj [(''_id'', Str ex_id)], Some 1)"
proof -
  have e: "kv_get ex_store [KStr ''c'', KStr ''__idx__'', KStr ''age'', KNum 100, KStr ex_id]
             = (Obj [(''_id'', Str ex_id)], Some 1)"
    by code_simp
  show ?thesis
    using dropIndex_deletes_metadata_only
            [of "''c''" ex_store "''age_1''" "[KStr ''age'', KNum 100, KStr ex_id]"] e
    by simp
qed

text \<open>
  C6, as the specification states it, fails. After \<open>dropIndex("age_1")\<close> on the example
  store no index is declared and the index entry of the field \<open>age\<close> is still stored.
\<close>

theorem dropIndex_leaves_index_entries_counterexample:
  "listIndexes ''c'' (dropIndex ''c'' ex_store ''age_1'') = [] \<and>
   kv_list (dropIndex ''c'' ex_store ''age_1'') [KStr ''c'', KStr ''__idx__'', KStr ''age'']
     = [(indexKey ''c'' ''age'' (Num 100) ex_id, Obj [(''_id'', Str ex_id)])]"
  by code_simp




end
